theory Spec2Isabelle
  imports Complex_Main "HOL-Library.Sublist"
begin

section \<open>Values of the tabular data\<close>

text \<open>
  Scores and features are Python floats. Every number the scoring engine adds is a
  multiple of one half (the indicator weights 15, 10, 7.5, 5, 3, 2), the discount
  multiplies by three quarters, and all totals stay below 256, so each of them is a
  dyadic rational that a binary float holds exactly: the model computes with
  \<^typ>\<open>rat\<close> and float arithmetic on these values agrees with it.

  A cell of a data frame row read with \<^verbatim>\<open>row.get(name, default)\<close> is one of three
  things: the column does not exist (the default is returned), the column exists but this
  row holds the missing-value marker NaN, or the row holds a value.
\<close>

datatype 'a field = Missing | NaN | Val 'a

text \<open>Python truth of a cell that is read with default \<^verbatim>\<open>False\<close>: NaN is a non-zero float, hence true.\<close>

fun truthy :: "bool field \<Rightarrow> bool" where
  "truthy Missing = False"
| "truthy NaN = True"
| "truthy (Val b) = b"

text \<open>\<^verbatim>\<open>cell == n\<close> for a cell read with default 0: NaN equals nothing.\<close>

fun field_eq_int :: "int field \<Rightarrow> int \<Rightarrow> bool" where
  "field_eq_int Missing n = (0 = n)"
| "field_eq_int NaN n = False"
| "field_eq_int (Val y) n = (y = n)"

subsection \<open>Cells and characters\<close>

text \<open>
  A cell of a text or flag column of the post table as read from the CSV files: the
  missing-value marker (NaN or None), a boolean, or a string.
\<close>

datatype cell = Null | Bool bool | Str string

fun isna :: "cell \<Rightarrow> bool" where
  "isna Null = True"
| "isna _ = False"

text \<open>Elementwise \<^verbatim>\<open>==\<close>: a missing value equals nothing, values of different types differ.\<close>

fun py_eq :: "cell \<Rightarrow> cell \<Rightarrow> bool" where
  "py_eq (Bool a) (Bool b) = (a = b)"
| "py_eq (Str a) (Str b) = (a = b)"
| "py_eq _ _ = False"

fun py_str :: "cell \<Rightarrow> string" where
  "py_str Null = ''nan''"
| "py_str (Bool b) = (if b then ''True'' else ''False'')"
| "py_str (Str s) = s"

text \<open>
  Strings are lists of 8-bit characters, read as the code points 0 to 255. On this range
  \<^verbatim>\<open>\s\<close> and \<^verbatim>\<open>str.strip\<close> treat the same twelve characters as whitespace, and
  \<^verbatim>\<open>str.lower\<close> moves A to Z and the accented capitals 192 to 222 (except the
  multiplication sign 215) up by 32.
\<close>

definition is_space :: "char \<Rightarrow> bool" where
  "is_space c = ((of_char c :: nat) \<in> {9, 10, 11, 12, 13, 28, 29, 30, 31, 32, 133, 160})"

definition lower_char :: "char \<Rightarrow> char" where
  "lower_char c =
    (let n = (of_char c :: nat) in
     if (65 \<le> n \<and> n \<le> 90) \<or> (192 \<le> n \<and> n \<le> 222 \<and> n \<noteq> 215)
     then char_of (n + 32) else c)"

definition lower :: "string \<Rightarrow> string" where
  "lower s = map lower_char s"

text \<open>The exceptions that leave a function of the pipeline.\<close>

datatype error = ValueError string

section \<open>The feature extractor (feature\_extractor.py)\<close>

subsection \<open>Account records and feature rows\<close>

text \<open>
  The creation value of an account: missing (None or NaN), a point in time, or a string
  that \<^verbatim>\<open>strptime\<close> rejects. A point in time is given in seconds since the epoch
  together with the UTC offset of the value in seconds (the loader builds UTC values, a
  parsed string carries its own offset); calendar fields are read in that offset.
\<close>

datatype created_value = NoDate | Date int int | Unparsable

text \<open>
  One row of the table built by the loader: the profile columns and the per-post columns,
  each of the latter a list with one entry per post. Numeric per-post entries may be NaN
  (\<open>None\<close>). The column \<^verbatim>\<open>text\<close> is the field \<open>texts\<close>.
\<close>

record user_row =
  username :: string
  user_id :: string
  created :: created_value
  followersCount :: int
  friendsCount :: int
  statusesCount :: int
  favouritesCount :: int
  location :: cell
  rawDescription :: cell
  profileImageUrl :: string
  verified :: bool
  blue :: bool
  texts :: "cell list"
  epoch :: "int option list"
  replyCount :: "int option list"
  retweetCount :: "int option list"
  likeCount :: "int option list"
  hashtags :: "cell list"
  mentionedUsers :: "cell list"
  retweetedTweet :: "cell list"
  in_reply_to_status_id_str :: "cell list"

text \<open>
  One row of the feature table. As the dictionary that \<^verbatim>\<open>_extract_user_features\<close>
  returns, \<open>Missing\<close> is an absent key and \<open>NaN\<close> is the value None; as a row of
  the data frame built from these dictionaries, \<open>Missing\<close> is an absent column.
\<close>

record feature_row =
  username :: string
  user_id :: string
  followersCount :: int
  friendsCount :: int
  follower_following_ratio :: rat
  avg_engagement_per_tweet :: rat
  favorites_tweets_ratio :: rat
  account_created_date :: "string field"
  account_created_year :: "int field"
  account_age_days :: "int field"
  first_tweet_date :: "string field"
  created_same_month_as_dataset :: "bool field"
  lifetime_tweets_per_day :: rat
  posting_freq_tweets_per_day :: rat
  reply_ratio_pct :: rat
  avg_text_similarity_pct :: rat
  bot_username_pattern :: bool
  username_ends_with_digits :: bool
  has_default_profile_image :: bool
  topic_concentration_pct :: rat
  dominant_keyword :: "string field"
  avg_hashtags_per_tweet :: rat
  has_long_hashtag :: bool
  retweet_ratio_pct :: rat
  has_empty_description :: bool
  has_no_location :: bool
  avg_mentions_per_tweet :: rat
  is_verified :: bool
  has_blue :: bool

subsection \<open>Numbers\<close>

text \<open>
  Quotients and means are computed with exact rationals. \<^verbatim>\<open>round(x, n)\<close> returns the
  multiple of \<open>10\<^sup>-\<^sup>n\<close> nearest to \<open>x\<close>, a tie going to the even multiple. (On a
  float whose exact quotient is such a tie the nearest float decides instead, so there the
  float result may be the other neighbour; it is a multiple of \<open>10\<^sup>-\<^sup>n\<close> either way.)
\<close>

definition round_half_even :: "rat \<Rightarrow> int" where
  "round_half_even x =
    (let f = \<lfloor>x\<rfloor>; d = x - of_int f in
     if d < 1/2 then f else if d > 1/2 then f + 1 else if even f then f else f + 1)"

definition py_round :: "rat \<Rightarrow> nat \<Rightarrow> rat" where
  "py_round x n = of_int (round_half_even (x * 10 ^ n)) / 10 ^ n"

definition mean :: "int list \<Rightarrow> rat" where
  "mean xs = of_int (sum_list xs) / of_nat (length xs)"

text \<open>The entries that are not NaN: \<^verbatim>\<open>[e for e in xs if pd.notna(e)]\<close>.\<close>

fun notna_values :: "'a option list \<Rightarrow> 'a list" where
  "notna_values [] = []"
| "notna_values (None # xs) = notna_values xs"
| "notna_values (Some x # xs) = x # notna_values xs"

text \<open>\<^verbatim>\<open>min\<close> and \<open>max\<close> of a non-empty list.\<close>

fun py_min :: "int list \<Rightarrow> int" where
  "py_min [] = 0"
| "py_min (x # xs) = fold min xs x"

fun py_max :: "int list \<Rightarrow> int" where
  "py_max [] = 0"
| "py_max (x # xs) = fold max xs x"


subsection \<open>Strings\<close>

text \<open>\<^verbatim>\<open>pattern in text\<close>\<close>

fun py_in :: "string \<Rightarrow> string \<Rightarrow> bool" where
  "py_in pattern [] = (pattern = [])"
| "py_in pattern (c # cs) = (prefix pattern (c # cs) \<or> py_in pattern cs)"

text \<open>\<^verbatim>\<open>text.count(pattern)\<close> for a non-empty pattern: occurrences that do not overlap.\<close>

function py_count :: "string \<Rightarrow> string \<Rightarrow> nat" where
  "py_count pattern [] = 0"
| "py_count pattern (c # cs) =
     (if pattern \<noteq> [] \<and> prefix pattern (c # cs)
      then 1 + py_count pattern (drop (length pattern) (c # cs))
      else py_count pattern cs)"
  by pat_completeness auto
termination
  by (relation "measure (\<lambda>(p, s). length s)") auto

text \<open>
  On the code points 0 to 255: \<^verbatim>\<open>str.isalpha\<close>, \<^verbatim>\<open>str.isdigit\<close> (which accepts the
  superscript digits 178, 179 and 185) and the class \<^verbatim>\<open>\d\<close> of the pattern language.
\<close>

definition py_isalpha :: "char \<Rightarrow> bool" where
  "py_isalpha c =
    (let n = (of_char c :: nat) in
     (65 \<le> n \<and> n \<le> 90) \<or> (97 \<le> n \<and> n \<le> 122) \<or> n = 170 \<or> n = 181 \<or> n = 186
     \<or> (192 \<le> n \<and> n \<le> 214) \<or> (216 \<le> n \<and> n \<le> 246) \<or> 248 \<le> n)"

definition py_isdigit :: "char \<Rightarrow> bool" where
  "py_isdigit c =
    (let n = (of_char c :: nat) in (48 \<le> n \<and> n \<le> 57) \<or> n = 178 \<or> n = 179 \<or> n = 185)"

definition re_digit :: "char \<Rightarrow> bool" where
  "re_digit c = (let n = (of_char c :: nat) in 48 \<le> n \<and> n \<le> 57)"

subsection \<open>Calendar\<close>

text \<open>
  The year and month of a day number (days since 1970-01-01) in the proleptic Gregorian
  calendar, which \<^verbatim>\<open>datetime\<close> uses, and the text \<^verbatim>\<open>strftime("%Y-%m-%d")\<close> prints
  for years of four digits.
\<close>

definition civil_from_days :: "int \<Rightarrow> int \<times> int \<times> int" where
  "civil_from_days days =
    (let z = days + 719468;
         era = z div 146097;
         doe = z - era * 146097;
         yoe = (doe - doe div 1460 + doe div 36524 - doe div 146096) div 365;
         doy = doe - (365 * yoe + yoe div 4 - yoe div 100);
         mp = (5 * doy + 2) div 153;
         d = doy - (153 * mp + 2) div 5 + 1;
         m = (if mp < 10 then mp + 3 else mp - 9);
         y = yoe + era * 400 + (if m \<le> 2 then 1 else 0)
     in (y, m, d))"

definition year_of :: "int \<Rightarrow> int" where
  "year_of seconds = fst (civil_from_days (seconds div 86400))"

definition month_of :: "int \<Rightarrow> int" where
  "month_of seconds = fst (snd (civil_from_days (seconds div 86400)))"

definition digit_char :: "int \<Rightarrow> char" where
  "digit_char d = char_of (48 + nat d)"

definition two_digits :: "int \<Rightarrow> string" where
  "two_digits n = [digit_char (n div 10 mod 10), digit_char (n mod 10)]"

definition strftime_ymd :: "int \<Rightarrow> string" where
  "strftime_ymd seconds =
    (case civil_from_days (seconds div 86400) of (y, m, d) \<Rightarrow>
       two_digits (y div 100) @ two_digits y @ ''-'' @ two_digits m @ ''-'' @ two_digits d)"

subsection \<open>Tier 1 features\<close>

definition calc_follower_ratio :: "user_row \<Rightarrow> rat" where
  "calc_follower_ratio r =
    (let followers = user_row.followersCount r;
         following = user_row.friendsCount r;
         ratio = (if following = 0 then 999 else of_int followers / of_int following)
     in py_round ratio 3)"

text \<open>The loop over \<^verbatim>\<open>zip(replies, retweets, likes)\<close>, NaN counted as 0.\<close>

definition calc_engagement_rate :: "user_row \<Rightarrow> rat" where
  "calc_engagement_rate r =
    (let nan0 = (\<lambda>v. case v of None \<Rightarrow> 0 | Some (n::int) \<Rightarrow> n);
         total_engagement =
           map (\<lambda>(rp, rt, l). nan0 rp + nan0 rt + nan0 l)
             (zip (replyCount r) (zip (retweetCount r) (likeCount r)));
         avg_engagement = (if total_engagement \<noteq> [] then mean total_engagement else 0)
     in py_round avg_engagement 2)"

definition calc_favorites_ratio :: "user_row \<Rightarrow> rat" where
  "calc_favorites_ratio r =
    (let favorites = favouritesCount r;
         statuses = statusesCount r;
         ratio = (if statuses = 0 then 0 else of_int favorites / of_int statuses)
     in py_round ratio 3)"

text \<open>
  \<^verbatim>\<open>_calc_account_age\<close> returns the values of the keys \<^verbatim>\<open>account_created_date\<close>,
  \<^verbatim>\<open>account_created_year\<close>, \<^verbatim>\<open>account_age_days\<close>, \<^verbatim>\<open>first_tweet_date\<close> and
  \<^verbatim>\<open>created_same_month_as_dataset\<close>. The minimum of the epochs is taken first and
  outside the \<^verbatim>\<open>try\<close>: on a non-empty list of NaN only, \<^verbatim>\<open>min\<close> raises. Inside the
  \<^verbatim>\<open>try\<close> every failure (a string that does not parse, a first post outside the years
  1 to 9999) gives the fallback dictionary.
\<close>

definition age_fallback ::
  "string field \<times> int field \<times> int field \<times> string field \<times> bool field" where
  "age_fallback = (NaN, Missing, NaN, NaN, Missing)"

definition calc_account_age ::
  "user_row \<Rightarrow> error + (string field \<times> int field \<times> int field \<times> string field \<times> bool field)" where
  "calc_account_age r =
    (let epochs = epoch r in
     if epochs \<noteq> [] \<and> notna_values epochs = []
     then Inl (ValueError ''min() arg is an empty sequence'')
     else
       (let first_tweet_epoch = (if epochs = [] then None else Some (py_min (notna_values epochs)))
        in case (created r, first_tweet_epoch) of
             (Date t off, Some e) \<Rightarrow>
               (if e = 0 \<or> year_of e < 1 \<or> 9999 < year_of e then Inr age_fallback
                else
                  (let age_days = (e - t) div 86400;
                       same_month = (year_of (t + off) = year_of e
                                     \<and> month_of (t + off) = month_of e)
                   in Inr (Val (strftime_ymd (t + off)), Val (year_of (t + off)),
                           Val age_days, Val (strftime_ymd e), Val same_month)))
           | _ \<Rightarrow> Inr age_fallback))"

text \<open>
  \<^verbatim>\<open>_calc_account_activity\<close>; \<open>now\<close> is what \<^verbatim>\<open>datetime.now(pytz.UTC)\<close>
  returns, in seconds since the epoch. The whole days from the creation to now, at least 1:
\<close>

definition days_since_creation :: "int \<Rightarrow> int \<Rightarrow> int" where
  "days_since_creation now t = max ((now - t) div 86400) 1"

definition calc_account_activity :: "int \<Rightarrow> user_row \<Rightarrow> rat" where
  "calc_account_activity now r =
    (let statuses = statusesCount r in
     case created r of
       Date t off \<Rightarrow>
         (if statuses = 0 then 0
          else
            (let tweets_per_day = of_int statuses / of_int (days_since_creation now t)
             in py_round tweets_per_day 2))
     | _ \<Rightarrow> 0)"

subsection \<open>Tier 2 features\<close>

definition calc_posting_frequency :: "user_row \<Rightarrow> rat" where
  "calc_posting_frequency r =
    (let epochs = epoch r in
     if epochs = [] then 0
     else
       (let timestamps = notna_values epochs;
            tweets_per_day =
              (if length timestamps < 2 then of_nat (length timestamps)
               else
                 (let min_time = py_min timestamps;
                      max_time = py_max timestamps;
                      days = max (of_int (max_time - min_time) / 86400) 1
                  in of_nat (length timestamps) / days))
        in py_round tweets_per_day 2))"

definition calc_reply_ratio :: "user_row \<Rightarrow> rat" where
  "calc_reply_ratio r =
    (let reply_ids = in_reply_to_status_id_str r in
     if reply_ids = [] then 0
     else
       (let reply_count = length (filter (\<lambda>x. \<not> isna x) reply_ids);
            total = length reply_ids;
            reply_pct = (if total > 0 then of_nat reply_count / of_nat total * 100 else 0)
        in py_round reply_pct 2))"

text \<open>
  \<^verbatim>\<open>_calc_text_similarity\<close>. The TF-IDF vectors and their cosine similarities are
  computed by a library; \<open>similarity\<close> stands for that computation on the sample of
  texts: it returns the mean of the similarities off the diagonal, or \<open>None\<close> where the
  library raises.
\<close>

definition calc_text_similarity :: "(string list \<Rightarrow> rat option) \<Rightarrow> user_row \<Rightarrow> rat" where
  "calc_text_similarity similarity r =
    (let ts = texts r in
     if ts = [] \<or> length ts < 2 then 0
     else
       (let strs = map py_str (filter (\<lambda>t. \<not> isna t \<and> length (py_str t) > 0) ts)
        in if length strs < 2 then 0
           else
             (case similarity (take 50 strs) of
                None \<Rightarrow> 0
              | Some total_similarity \<Rightarrow> py_round (total_similarity * 100) 2)))"

text \<open>
  \<^verbatim>\<open>re.search(r'\d{6,}$', username)\<close>: at least six digits at the end, where the end
  is also the position before a final newline.
\<close>

definition trailing_digits :: "string \<Rightarrow> nat" where
  "trailing_digits s = length (takeWhile re_digit (rev s))"

definition ends_with_six_digits :: "string \<Rightarrow> bool" where
  "ends_with_six_digits s =
    (trailing_digits s \<ge> 6
     \<or> (s \<noteq> [] \<and> last s = char_of (10::nat) \<and> trailing_digits (butlast s) \<ge> 6))"

fun transitions :: "string \<Rightarrow> nat" where
  "transitions (a # b # cs) =
     (if py_isalpha a \<noteq> py_isalpha b then 1 else 0) + transitions (b # cs)"
| "transitions _ = 0"

text \<open>The pair \<^verbatim>\<open>bot_username_pattern\<close>, \<^verbatim>\<open>username_ends_with_digits\<close>.\<close>

definition calc_username_pattern :: "user_row \<Rightarrow> bool \<times> bool" where
  "calc_username_pattern r =
    (let name = user_row.username r;
         ends_with_digits = ends_with_six_digits name;
         random_mix = (transitions name \<ge> 3 \<and> list_ex py_isdigit name)
     in (ends_with_digits \<or> random_mix, ends_with_digits))"

definition default_patterns :: "string list" where
  "default_patterns = [''default_profile'', ''default_avatar'', ''egg'', ''placeholder'']"

definition calc_default_profile :: "user_row \<Rightarrow> bool" where
  "calc_default_profile r =
    list_ex (\<lambda>pattern. py_in pattern (lower (profileImageUrl r))) default_patterns"

definition political_keywords :: "string list" where
  "political_keywords =
    [''trump'', ''biden'', ''harris'', ''election'', ''vote'', ''ballot'',
     ''democrat'', ''republican'', ''liberal'', ''conservative'',
     ''maga'', ''gop'', ''dnc'', ''rnc'']"

text \<open>\<^verbatim>\<open>max(keyword_counts, key=keyword_counts.get)\<close>: the first key with the largest count.\<close>

fun first_max :: "(string \<times> nat) list \<Rightarrow> string \<times> nat" where
  "first_max [] = ([], 0)"
| "first_max [kc] = kc"
| "first_max (kc # rest) = (let best = first_max rest in if snd kc \<ge> snd best then kc else best)"

text \<open>The pair \<^verbatim>\<open>topic_concentration_pct\<close>, \<^verbatim>\<open>dominant_keyword\<close>.\<close>

definition calc_topic_diversity :: "user_row \<Rightarrow> rat \<times> string field" where
  "calc_topic_diversity r =
    (let ts = texts r in
     if ts = [] \<or> length ts < 5 then (0, NaN)
     else
       (let keyword_counts =
              filter (\<lambda>kc. snd kc > 0)
                (map (\<lambda>keyword.
                        (keyword, length (filter (\<lambda>t. py_in keyword (lower (py_str t))) ts)))
                   political_keywords)
        in if keyword_counts = [] then (0, NaN)
           else
             (let dominant = first_max keyword_counts;
                  concentration_pct = of_nat (snd dominant) / of_nat (length ts) * 100
              in (py_round concentration_pct 2, Val (fst dominant)))))"

subsection \<open>Tier 3 features\<close>

text \<open>
  The count of one entry of \<^verbatim>\<open>hashtags\<close>: commas plus one for a string other than
  \<^verbatim>\<open>[]\<close>; 0 for NaN and for \<^verbatim>\<open>[]\<close>; 0 for a boolean, on which \<^verbatim>\<open>len\<close> raises
  inside the \<^verbatim>\<open>try\<close>.
\<close>

fun hashtag_count :: "cell \<Rightarrow> int" where
  "hashtag_count (Str s) = (if s \<noteq> ''[]'' then int (count_list s CHR '','') + 1 else 0)"
| "hashtag_count _ = 0"

fun is_long_hashtag :: "cell \<Rightarrow> bool" where
  "is_long_hashtag (Str s) = (s \<noteq> ''[]'' \<and> length s > 30)"
| "is_long_hashtag _ = False"

text \<open>The pair \<^verbatim>\<open>avg_hashtags_per_tweet\<close>, \<^verbatim>\<open>has_long_hashtag\<close>.\<close>

definition calc_hashtag_usage :: "user_row \<Rightarrow> rat \<times> bool" where
  "calc_hashtag_usage r =
    (let hs = hashtags r in
     if hs = [] then (0, False)
     else
       (let hashtag_counts = map hashtag_count hs;
            has_long = list_ex is_long_hashtag hs;
            avg_hashtags = (if hashtag_counts \<noteq> [] then mean hashtag_counts else 0)
        in (py_round avg_hashtags 2, has_long)))"

definition calc_retweet_ratio :: "user_row \<Rightarrow> rat" where
  "calc_retweet_ratio r =
    (let retweets = user_row.retweetedTweet r in
     if retweets = [] then 0
     else
       (let retweet_count =
              length (filter (\<lambda>rt. py_eq rt (Bool True) \<or> py_eq rt (Str ''True'')) retweets);
            total = length retweets;
            retweet_pct = (if total > 0 then of_nat retweet_count / of_nat total * 100 else 0)
        in py_round retweet_pct 2))"

text \<open>The pair \<^verbatim>\<open>has_empty_description\<close>, \<^verbatim>\<open>has_no_location\<close>.\<close>

definition calc_profile_completeness :: "user_row \<Rightarrow> bool \<times> bool" where
  "calc_profile_completeness r =
    (let description = rawDescription r;
         loc = location r;
         empty_description =
           (isna description \<or> py_eq description (Str []) \<or> py_eq description (Str ''PW''));
         no_location = (isna loc \<or> py_eq loc (Str []) \<or> py_eq loc (Str ''PW''))
     in (empty_description, no_location))"

fun mention_count :: "cell \<Rightarrow> int" where
  "mention_count (Str s) = (if s \<noteq> ''[]'' then int (py_count ''id_str'' s) else 0)"
| "mention_count _ = 0"

definition calc_mention_spam :: "user_row \<Rightarrow> rat" where
  "calc_mention_spam r =
    (let mentions = mentionedUsers r in
     if mentions = [] then 0
     else
       (let mention_counts = map mention_count mentions;
            avg_mentions = (if mention_counts \<noteq> [] then mean mention_counts else 0)
        in py_round avg_mentions 2))"

subsection \<open>The feature vector\<close>

text \<open>
  \<^verbatim>\<open>_extract_user_features\<close>: the dictionary of one account. Only
  \<^verbatim>\<open>_calc_account_age\<close> can raise; its exception leaves the function.
\<close>

definition extract_user_features ::
  "(string list \<Rightarrow> rat option) \<Rightarrow> int \<Rightarrow> user_row \<Rightarrow> error + feature_row" where
  "extract_user_features similarity now r =
    (case calc_account_age r of
       Inl e \<Rightarrow> Inl e
     | Inr (created_date, created_year, age_days, first_date, same_month) \<Rightarrow>
         Inr \<lparr> feature_row.username = user_row.username r,
               feature_row.user_id = user_row.user_id r,
               feature_row.followersCount = user_row.followersCount r,
               feature_row.friendsCount = user_row.friendsCount r,
               follower_following_ratio = calc_follower_ratio r,
               avg_engagement_per_tweet = calc_engagement_rate r,
               favorites_tweets_ratio = calc_favorites_ratio r,
               account_created_date = created_date,
               account_created_year = created_year,
               account_age_days = age_days,
               first_tweet_date = first_date,
               created_same_month_as_dataset = same_month,
               lifetime_tweets_per_day = calc_account_activity now r,
               posting_freq_tweets_per_day = calc_posting_frequency r,
               reply_ratio_pct = calc_reply_ratio r,
               avg_text_similarity_pct = calc_text_similarity similarity r,
               bot_username_pattern = fst (calc_username_pattern r),
               username_ends_with_digits = snd (calc_username_pattern r),
               has_default_profile_image = calc_default_profile r,
               topic_concentration_pct = fst (calc_topic_diversity r),
               dominant_keyword = snd (calc_topic_diversity r),
               avg_hashtags_per_tweet = fst (calc_hashtag_usage r),
               has_long_hashtag = snd (calc_hashtag_usage r),
               retweet_ratio_pct = calc_retweet_ratio r,
               has_empty_description = fst (calc_profile_completeness r),
               has_no_location = snd (calc_profile_completeness r),
               avg_mentions_per_tweet = calc_mention_spam r,
               is_verified = verified r,
               has_blue = blue r \<rparr>)"

text \<open>The loop of \<^verbatim>\<open>extract_all_features\<close>: the first exception ends it.\<close>

fun extract_rows ::
  "(string list \<Rightarrow> rat option) \<Rightarrow> int \<Rightarrow> user_row list \<Rightarrow> error + feature_row list" where
  "extract_rows similarity now [] = Inr []"
| "extract_rows similarity now (r # rs) =
     (case extract_user_features similarity now r of
        Inl e \<Rightarrow> Inl e
      | Inr f \<Rightarrow>
          (case extract_rows similarity now rs of
             Inl e \<Rightarrow> Inl e
           | Inr fs \<Rightarrow> Inr (f # fs)))"

text \<open>
  \<^verbatim>\<open>pd.DataFrame(all_features)\<close>: a key that some dictionary has becomes a column, and
  the rows whose dictionary lacks it hold NaN there. The two keys that a dictionary may
  lack are \<^verbatim>\<open>account_created_year\<close> and \<^verbatim>\<open>created_same_month_as_dataset\<close>.
\<close>

definition fill :: "bool \<Rightarrow> 'a field \<Rightarrow> 'a field" where
  "fill column_exists v = (if column_exists \<and> v = Missing then NaN else v)"

definition data_frame :: "feature_row list \<Rightarrow> feature_row list" where
  "data_frame dicts =
    (let has_year = list_ex (\<lambda>d. account_created_year d \<noteq> Missing) dicts;
         has_same = list_ex (\<lambda>d. created_same_month_as_dataset d \<noteq> Missing) dicts
     in map (\<lambda>d. d \<lparr> account_created_year := fill has_year (account_created_year d),
                      created_same_month_as_dataset :=
                        fill has_same (created_same_month_as_dataset d) \<rparr>) dicts)"

text \<open>\<^verbatim>\<open>extract_all_features\<close>, run at the time \<open>now\<close>.\<close>

definition extract_all_features ::
  "(string list \<Rightarrow> rat option) \<Rightarrow> int \<Rightarrow> user_row list \<Rightarrow> error + feature_row list" where
  "extract_all_features similarity now user_data =
    (case extract_rows similarity now user_data of
       Inl e \<Rightarrow> Inl e
     | Inr dicts \<Rightarrow> Inr (data_frame dicts))"

section \<open>The scoring engine (bot\_scorer.py)\<close>

text \<open>
  \<^verbatim>\<open>_calculate_tier1_score\<close>: nine indicators, each an if/elif chain adding to
  \<^verbatim>\<open>score\<close>. The set is \<^verbatim>\<open>self.troll_farm_members\<close>.
\<close>

definition calculate_tier1_score :: "string set \<Rightarrow> feature_row \<Rightarrow> rat" where
  "calculate_tier1_score troll_farm_members r =
    (if feature_row.username r \<in> troll_farm_members then 15 else 0)
    + (let ratio = follower_following_ratio r in
       if ratio < 1/10 then 15 else if ratio \<le> 3/10 then 10 else if ratio \<le> 1/2 then 5 else 0)
    + (let engagement = avg_engagement_per_tweet r in
       if engagement < 1/2 then 15 else if engagement \<le> 2 then 10
       else if engagement \<le> 5 then 5 else 0)
    + (let fav_ratio = favorites_tweets_ratio r in
       if fav_ratio < 1/10 then 15 else if fav_ratio \<le> 3/10 then 10
       else if fav_ratio \<le> 1/2 then 5 else 0)
    + (if truthy (created_same_month_as_dataset r) then 15
       else if field_eq_int (account_created_year r) 2024 then 15/2 else 0)
    + (let lifetime_tweets = lifetime_tweets_per_day r in
       if lifetime_tweets > 100 then 15 else if lifetime_tweets \<ge> 50 then 10
       else if lifetime_tweets \<ge> 25 then 5 else 0)
    + (let reply_ratio = reply_ratio_pct r in
       if reply_ratio \<ge> 80 then 15 else if reply_ratio \<ge> 66 then 10
       else if reply_ratio \<ge> 50 then 5 else 0)
    + (let similarity = avg_text_similarity_pct r in
       if similarity > 80 then 15 else if similarity \<ge> 60 then 10
       else if similarity \<ge> 40 then 5 else 0)
    + (let concentration = topic_concentration_pct r in
       if concentration = 100 then 15 else if concentration \<ge> 80 then 10
       else if concentration > 70 then 5 else 0)"

definition calculate_tier2_score :: "feature_row \<Rightarrow> rat" where
  "calculate_tier2_score r =
    (let tweets_per_day = posting_freq_tweets_per_day r in
     if tweets_per_day > 50 then 10 else if tweets_per_day \<ge> 30 then 7
     else if tweets_per_day \<ge> 20 then 3 else 0)
    + (if bot_username_pattern r then 10 else 0)
    + (if has_default_profile_image r then 10 else 0)"

definition calculate_tier3_score :: "feature_row \<Rightarrow> rat" where
  "calculate_tier3_score r =
    (if avg_hashtags_per_tweet r > 3 then 5 else if has_long_hashtag r then 3 else 0)
    + (let retweet_ratio = retweet_ratio_pct r in
       if retweet_ratio > 80 then 5 else if retweet_ratio \<ge> 60 then 3 else 0)
    + (let profile_score = (if has_empty_description r then 2 else 0)
                         + (if has_no_location r then 2 else 0)
       in min profile_score 5)
    + (if avg_mentions_per_tweet r > 3 then 5 else 0)"

definition classify_user :: "rat \<Rightarrow> string" where
  "classify_user total_score =
    (if total_score \<le> 35 then ''Likely Human''
     else if total_score \<le> 60 then ''Suspicious''
     else if total_score \<le> 85 then ''Likely Bot''
     else ''Definite Bot'')"

text \<open>One row of the score table that \<^verbatim>\<open>calculate_all_scores\<close> builds.\<close>

record score_row =
  username :: string
  user_id :: string
  tier1_score :: rat
  tier2_score :: rat
  tier3_score :: rat
  total_score_before_verification :: rat
  is_verified :: bool
  has_blue :: bool
  is_verified_or_blue :: bool
  total_score :: rat
  classification :: string
  flagged_for_review :: bool

text \<open>
  The body of \<^verbatim>\<open>calculate_all_scores\<close> for one row: the columns are computed
  row by row, each from the columns assigned before it.
\<close>

definition score_one :: "string set \<Rightarrow> feature_row \<Rightarrow> score_row" where
  "score_one troll_farm_members r =
    (let t1 = calculate_tier1_score troll_farm_members r;
         t2 = calculate_tier2_score r;
         t3 = calculate_tier3_score r;
         before = t1 + t2 + t3;
         vb = (feature_row.is_verified r \<or> feature_row.has_blue r);
         total = (if vb then before * (3/4) else before)
     in \<lparr> username = feature_row.username r,
          user_id = feature_row.user_id r,
          tier1_score = t1, tier2_score = t2, tier3_score = t3,
          total_score_before_verification = before,
          is_verified = feature_row.is_verified r,
          has_blue = feature_row.has_blue r,
          is_verified_or_blue = vb,
          total_score = total,
          classification = classify_user total,
          flagged_for_review = (total \<ge> 86) \<rparr>)"

definition calculate_all_scores :: "string set \<Rightarrow> feature_row list \<Rightarrow> score_row list" where
  "calculate_all_scores troll_farm_members features = map (score_one troll_farm_members) features"

text \<open>The position of a label in the ordered list of bands.\<close>

definition band_rank :: "string \<Rightarrow> nat" where
  "band_rank l =
    (if l = ''Likely Human'' then 0 else if l = ''Suspicious'' then 1
     else if l = ''Likely Bot'' then 2 else 3)"


text \<open>A feature row in which no indicator fires except the low-ratio, low-engagement and
  low-favourites bands (the zero row); the examples below vary it.\<close>

definition zero_row :: feature_row where
  "zero_row =
    \<lparr> feature_row.username = ''user_a'', feature_row.user_id = ''1'',
      feature_row.followersCount = 0, feature_row.friendsCount = 1,
      follower_following_ratio = 0, avg_engagement_per_tweet = 0, favorites_tweets_ratio = 0,
      account_created_date = Val ''2019-05-01'', account_created_year = Val 2019,
      account_age_days = Val 2000, first_tweet_date = Val ''2024-10-21'',
      created_same_month_as_dataset = Val False,
      lifetime_tweets_per_day = 0, posting_freq_tweets_per_day = 0, reply_ratio_pct = 0,
      avg_text_similarity_pct = 0, bot_username_pattern = False,
      username_ends_with_digits = False, has_default_profile_image = False,
      topic_concentration_pct = 0, dominant_keyword = NaN,
      avg_hashtags_per_tweet = 0, has_long_hashtag = False, retweet_ratio_pct = 0,
      has_empty_description = False, has_no_location = False, avg_mentions_per_tweet = 0,
      feature_row.is_verified = False, feature_row.has_blue = False \<rparr>"

section \<open>The coordination detector (troll\_farm\_detector.py)\<close>

subsection \<open>normalize\_text\<close>

text \<open>
  A match of the pattern \<^verbatim>\<open>http\S+|https\S+\<close> starts where the text reads
  \<^verbatim>\<open>http\<close> followed by at least one non-whitespace character (the second alternative
  never decides: where it matches, the first one does). The match is greedy: it runs to the
  end of the non-whitespace run.
\<close>

fun url_at :: "string \<Rightarrow> bool" where
  "url_at (a # b # c # d # e # rest) =
     (a = CHR ''h'' \<and> b = CHR ''t'' \<and> c = CHR ''t'' \<and> d = CHR ''p'' \<and> \<not> is_space e)"
| "url_at _ = False"

text \<open>\<^verbatim>\<open>re.sub(r'http\S+|https\S+', '', text)\<close>: leftmost matches, left to right.\<close>

function remove_urls :: "string \<Rightarrow> string" where
  "remove_urls [] = []"
| "remove_urls (c # cs) =
     (if url_at (c # cs)
      then remove_urls (dropWhile (\<lambda>x. \<not> is_space x) (drop 4 (c # cs)))
      else c # remove_urls cs)"
  by pat_completeness auto
termination
proof (relation "measure length")
  fix c :: char and cs :: string
  have "length (dropWhile (\<lambda>x. \<not> is_space x) (drop 4 (c # cs))) \<le> length (drop 4 (c # cs))"
    by (rule length_dropWhile_le)
  then show "(dropWhile (\<lambda>x. \<not> is_space x) (drop 4 (c # cs)), c # cs) \<in> measure length"
    by simp
qed simp_all

text \<open>\<^verbatim>\<open>re.sub(r'\s+', ' ', text)\<close>: every maximal whitespace run becomes one space.\<close>

function collapse_ws :: "string \<Rightarrow> string" where
  "collapse_ws [] = []"
| "collapse_ws (c # cs) =
     (if is_space c then CHR '' '' # collapse_ws (dropWhile is_space cs)
      else c # collapse_ws cs)"
  by pat_completeness auto
termination
  by (relation "measure length") (auto simp: le_imp_less_Suc length_dropWhile_le)

definition strip :: "string \<Rightarrow> string" where
  "strip s = rev (dropWhile is_space (rev (dropWhile is_space s)))"

definition normalize_text :: "cell \<Rightarrow> string" where
  "normalize_text text =
    (if isna text \<or> py_eq text (Str []) then []
     else strip (collapse_ws (remove_urls (lower (py_str text)))))"

text \<open>The text contains a match of the URL pattern at some position.\<close>

fun contains_url :: "string \<Rightarrow> bool" where
  "contains_url [] = False"
| "contains_url (c # cs) = (url_at (c # cs) \<or> contains_url cs)"

text \<open>
  Whitespace-normal text: every whitespace character is a space and no two whitespace
  characters are adjacent.
\<close>

fun norm_ws :: "string \<Rightarrow> bool" where
  "norm_ws [] = True"
| "norm_ws [c] = (is_space c \<longrightarrow> c = CHR '' '')"
| "norm_ws (c # d # cs) = ((is_space c \<longrightarrow> c = CHR '' '' \<and> \<not> is_space d) \<and> norm_ws (d # cs))"

subsection \<open>Posts, groups and farms\<close>

text \<open>
  One row of the post table, with the columns the detector reads; the column \<^verbatim>\<open>text\<close>
  is the field \<open>tweet_text\<close>.
\<close>

record tweet =
  username :: string
  tweet_text :: cell
  retweetedTweet :: cell

text \<open>The row mask of \<^verbatim>\<open>filter_original_tweets\<close>: six alternatives joined by \<^verbatim>\<open>|\<close>.\<close>

definition is_original :: "cell \<Rightarrow> bool" where
  "is_original v =
    (isna v \<or> py_eq v (Bool False) \<or> py_eq v (Str ''False'') \<or> py_eq v (Str [])
     \<or> py_eq v (Str ''nan'') \<or> py_eq v (Str ''[]''))"

definition filter_original_tweets :: "tweet list option \<Rightarrow> error + tweet list" where
  "filter_original_tweets raw_tweets =
    (case raw_tweets of
       None \<Rightarrow> Inl (ValueError ''No tweet data loaded! Call load_data() first.'')
     | Some ts \<Rightarrow> Inr (filter (\<lambda>t. is_original (retweetedTweet t)) ts))"

text \<open>
  \<^verbatim>\<open>message_groups[normalized_msg][username] += 1\<close> on dictionaries that create
  missing entries: both levels are association lists in insertion order, as Python
  dictionaries are.
\<close>

fun bump_user :: "(string \<times> nat) list \<Rightarrow> string \<Rightarrow> (string \<times> nat) list" where
  "bump_user [] u = [(u, 1)]"
| "bump_user ((v, n) # users) u =
     (if v = u then (v, n + 1) # users else (v, n) # bump_user users u)"

fun bump_group ::
  "(string \<times> (string \<times> nat) list) list \<Rightarrow> string \<Rightarrow> string \<Rightarrow> (string \<times> (string \<times> nat) list) list"
where
  "bump_group [] msg u = [(msg, bump_user [] u)]"
| "bump_group ((m, users) # groups) msg u =
     (if m = msg then (m, bump_user users u) # groups
      else (m, users) # bump_group groups msg u)"

text \<open>The loop over the rows; a row is a pair of normalized text and username.\<close>

definition message_groups :: "(string \<times> string) list \<Rightarrow> (string \<times> (string \<times> nat) list) list" where
  "message_groups rows = foldl (\<lambda>groups (msg, u). bump_group groups msg u) [] rows"

text \<open>
  A row of \<^verbatim>\<open>users_df\<close> after the left join with the score table: the columns taken
  from the score table are missing (\<open>None\<close>) for a user the score table does not list.
\<close>

record farm_user =
  username :: string
  message_frequency :: nat
  classification :: "string option"
  total_score :: "rat option"

text \<open>
  \<^verbatim>\<open>users_df.merge(bot_scores[[...]], on='username', how='left')\<close>: each left row
  once per matching score row, in the order of the left rows; once, with missing values,
  when nothing matches.
\<close>

definition merge_left :: "(string \<times> nat) list \<Rightarrow> score_row list \<Rightarrow> farm_user list" where
  "merge_left users bot_scores =
    concat (map (\<lambda>(u, n).
      (case filter (\<lambda>s. score_row.username s = u) bot_scores of
         [] \<Rightarrow> [\<lparr> username = u, message_frequency = n, classification = None,
                 total_score = None \<rparr>]
       | ms \<Rightarrow> map (\<lambda>s. \<lparr> username = u, message_frequency = n,
                           classification = Some (score_row.classification s),
                           total_score = Some (score_row.total_score s) \<rparr>) ms)) users)"

definition bot_labels :: "string list" where
  "bot_labels = [''Suspicious'', ''Likely Bot'', ''Definite Bot'']"

text \<open>\<^verbatim>\<open>users_df['classification'].isin(bot_labels).sum()\<close>\<close>

definition bot_count :: "farm_user list \<Rightarrow> nat" where
  "bot_count users_df =
    length (filter (\<lambda>r. case classification r of None \<Rightarrow> False
                                | Some l \<Rightarrow> l \<in> set bot_labels) users_df)"

record farm =
  shared_message :: string
  farm_size :: nat
  farm_bot_count :: nat
  farm_bot_percentage :: rat
  users_data :: "farm_user list"

text \<open>The body of the loop over the message groups: the farm a group becomes, if any.\<close>

definition candidate_farm ::
  "score_row list \<Rightarrow> int \<Rightarrow> rat \<Rightarrow> string \<times> (string \<times> nat) list \<Rightarrow> farm option" where
  "candidate_farm bot_scores min_accounts min_bot_percentage g =
    (let message = fst g; users = snd g;
         num_users = length users
     in if int num_users \<ge> min_accounts
        then (let users_df = merge_left users bot_scores;
                  bot_cnt = bot_count users_df;
                  bot_percentage = (of_nat bot_cnt / of_nat num_users) * 100
              in if bot_percentage \<ge> min_bot_percentage
                 then Some \<lparr> shared_message = message, farm_size = num_users,
                             farm_bot_count = bot_cnt, farm_bot_percentage = bot_percentage,
                             users_data = users_df \<rparr>
                 else None)
        else None)"

text \<open>
  The first step of \<^verbatim>\<open>identify_troll_farms\<close>: the column \<^verbatim>\<open>normalized_text\<close> is
  added and the rows where it is empty are removed. Of each remaining row the loop reads
  the normalized text and the username.
\<close>

definition kept_rows :: "tweet list \<Rightarrow> (string \<times> string) list" where
  "kept_rows ts = filter (\<lambda>row. fst row \<noteq> [])
                    (map (\<lambda>t. (normalize_text (tweet_text t), tweet.username t)) ts)"

text \<open>
  \<^verbatim>\<open>identify_troll_farms\<close> up to the list \<^verbatim>\<open>potential_farms\<close>, in discovery order;
  the member table is this list flattened. The percentage is computed with exact rationals.
  At the threshold 50 of the pipeline the comparison on floats gives the same answer: a
  quotient below one half stays below it after rounding, and so does its product with 100.
\<close>

definition identify_troll_farms ::
  "tweet list option \<Rightarrow> score_row list option \<Rightarrow> int \<Rightarrow> rat \<Rightarrow> error + farm list" where
  "identify_troll_farms raw_tweets bot_scores min_accounts min_bot_percentage =
    (case (raw_tweets, bot_scores) of
       (Some ts, Some scores) \<Rightarrow>
         Inr (List.map_filter (candidate_farm scores min_accounts min_bot_percentage)
                (message_groups (kept_rows ts)))
     | _ \<Rightarrow> Inl (ValueError ''Data not loaded''))"

text \<open>\<^verbatim>\<open>get_troll_farm_usernames\<close>: the usernames of all members of all farms.\<close>

definition get_troll_farm_usernames :: "farm list \<Rightarrow> string set" where
  "get_troll_farm_usernames farms = farm_user.username ` (\<Union>f \<in> set farms. set (users_data f))"

text \<open>
  The detection stage of \<^verbatim>\<open>main\<close>: the posts are filtered to originals, then the
  farms are identified with the thresholds 10 and 50.
\<close>

definition detect :: "tweet list \<Rightarrow> score_row list \<Rightarrow> error + farm list" where
  "detect raw_tweets initial_scores =
    (case filter_original_tweets (Some raw_tweets) of
       Inl e \<Rightarrow> Inl e
     | Inr originals \<Rightarrow> identify_troll_farms (Some originals) (Some initial_scores) 10 50)"

subsection \<open>The pipeline\<close>

text \<open>
  \<^verbatim>\<open>main\<close>: features, initial scores with an empty farm set, farm detection on the
  initial scores, final scores with the usernames of the farms. The result holds the
  initial scores, the farms and the final scores.
\<close>

definition main ::
  "(string list \<Rightarrow> rat option) \<Rightarrow> int \<Rightarrow> user_row list \<Rightarrow> tweet list
     \<Rightarrow> error + (score_row list \<times> farm list \<times> score_row list)" where
  "main similarity now user_data raw_tweets =
    (case extract_all_features similarity now user_data of
       Inl e \<Rightarrow> Inl e
     | Inr features \<Rightarrow>
         (let initial_scores = calculate_all_scores {} features in
          case detect raw_tweets initial_scores of
            Inl e \<Rightarrow> Inl e
          | Inr farms \<Rightarrow>
              Inr (initial_scores, farms,
                   calculate_all_scores (get_troll_farm_usernames farms) features)))"

subsection \<open>The qualification rule in the words of the specification\<close>


text \<open>The score table classifies the user as Suspicious, Likely Bot or Definite Bot.\<close>

definition labelled_bot :: "score_row list \<Rightarrow> string \<Rightarrow> bool" where
  "labelled_bot sc u =
     (\<exists>s \<in> set sc. score_row.username s = u
        \<and> score_row.classification s \<in> {''Suspicious'', ''Likely Bot'', ''Definite Bot''})"

text \<open>The number of members with a bot label, divided by the group size, times 100.\<close>

definition bot_percentage :: "score_row list \<Rightarrow> string set \<Rightarrow> rat" where
  "bot_percentage sc M = of_nat (card {u \<in> M. labelled_bot sc u}) / of_nat (card M) * 100"

subsection \<open>Example data\<close>




text \<open>An account with three posts, one follower and three friends.\<close>

definition sample_user :: user_row where
  "sample_user =
    \<lparr> user_row.username = ''bot_99999999'', user_row.user_id = ''42'',
      created = Date 1727800000 0,
      user_row.followersCount = 1, user_row.friendsCount = 3, statusesCount = 1000,
      favouritesCount = 2000,
      location = Null, rawDescription = Str ''PW'',
      profileImageUrl = ''http://abs.twimg.com/sticky/default_profile_images/x.png'',
      verified = False, blue = False,
      texts = [Str ''Vote'', Str ''vote now'', Null],
      epoch = [Some 1729500000, Some 1729586400, None],
      replyCount = [Some 0, None, Some 1], retweetCount = [Some 0, Some 0, Some 2],
      likeCount = [Some 1, Some 0, Some 0],
      hashtags = [Str ''[]'', Str ''[a, b]'', Null],
      mentionedUsers = [Null, Str ''[{id_str: 7}]'', Str ''[]''],
      user_row.retweetedTweet = [Null, Bool True, Str ''True''],
      in_reply_to_status_id_str = [Null, Str ''17'', Null] \<rparr>"

section \<open>Properties of the feature extractor\<close>

















lemma sample_features:
  "extract_user_features (\<lambda>_. Some (1/3)) 1730000000 sample_user =
    Inr \<lparr> feature_row.username = ''bot_99999999'', feature_row.user_id = ''42'',
      feature_row.followersCount = 1, feature_row.friendsCount = 3,
      follower_following_ratio = 333 / 1000,
      avg_engagement_per_tweet = 133 / 100, favorites_tweets_ratio = 2,
      account_created_date = Val ''2024-10-01'',
      account_created_year = Val 2024, account_age_days = Val 19,
      first_tweet_date = Val ''2024-10-21'',
      created_same_month_as_dataset = Val True,
      lifetime_tweets_per_day = 40, posting_freq_tweets_per_day = 2,
      reply_ratio_pct = 3333 / 100, avg_text_similarity_pct = 3333 / 100,
      bot_username_pattern = True, username_ends_with_digits = True,
      has_default_profile_image = True, topic_concentration_pct = 0,
      dominant_keyword = NaN, avg_hashtags_per_tweet = 67 / 100,
      has_long_hashtag = False, retweet_ratio_pct = 6667 / 100,
      has_empty_description = True, has_no_location = True,
      avg_mentions_per_tweet = 33 / 100, feature_row.is_verified = False,
      feature_row.has_blue = False \<rparr>"
  by code_simp

lemma sample_activity:
  "calc_account_activity 1730000000 sample_user = 40"
  "calc_account_activity 1740000000 sample_user = 709 / 100"
  by code_simp+




text \<open>
  C9, as stated, fails: the same account record, extracted at two times 10 000 000 seconds
  apart, gives two different feature vectors; \<open>lifetime_tweets_per_day\<close> is 40 in one
  and 7.09 in the other.
\<close>

theorem extraction_depends_on_clock:
  "extract_user_features (\<lambda>_. Some (1/3)) 1730000000 sample_user
     \<noteq> extract_user_features (\<lambda>_. Some (1/3)) 1740000000 sample_user
   \<and> map_sum id lifetime_tweets_per_day
        (extract_user_features (\<lambda>_. Some (1/3)) 1730000000 sample_user) = Inr 40
   \<and> map_sum id lifetime_tweets_per_day
        (extract_user_features (\<lambda>_. Some (1/3)) 1740000000 sample_user) = Inr (709 / 100)"
proof -
  have a: "map_sum id lifetime_tweets_per_day
        (extract_user_features (\<lambda>_. Some (1/3)) 1730000000 sample_user) = Inr 40"
    by (simp add: sample_features)
  have b: "map_sum id lifetime_tweets_per_day
        (extract_user_features (\<lambda>_. Some (1/3)) 1740000000 sample_user) = Inr (709 / 100)"
    by code_simp
  have "extract_user_features (\<lambda>_. Some (1/3)) 1730000000 sample_user
     \<noteq> extract_user_features (\<lambda>_. Some (1/3)) 1740000000 sample_user"
  proof
    assume "extract_user_features (\<lambda>_. Some (1/3)) 1730000000 sample_user
      = extract_user_features (\<lambda>_. Some (1/3)) 1740000000 sample_user"
    with a b have "(Inr 40 :: error + rat) = Inr (709 / 100)" by simp
    then show False by simp
  qed
  with a b show ?thesis by simp
qed


lemma extract_user_features_clock:
  "extract_user_features sim now2 r =
     map_sum id (\<lambda>f. f \<lparr> lifetime_tweets_per_day := calc_account_activity now2 r \<rparr>)
       (extract_user_features sim now1 r)"
  by (simp add: extract_user_features_def split: sum.split prod.split)

lemma calc_account_activity_days:
  assumes "\<forall>t off. created r = Date t off \<longrightarrow> days_since_creation now1 t = days_since_creation now2 t"
  shows "calc_account_activity now1 r = calc_account_activity now2 r"
  using assms by (simp add: calc_account_activity_def Let_def split: created_value.split)

lemma extract_user_features_same_days:
  assumes "\<forall>t off. created r = Date t off \<longrightarrow> days_since_creation now1 t = days_since_creation now2 t"
  shows "extract_user_features sim now1 r = extract_user_features sim now2 r"
  using calc_account_activity_days [OF assms]
  by (simp add: extract_user_features_def split: sum.split prod.split)

lemma extract_rows_same_days:
  assumes "\<forall>r \<in> set rs. \<forall>t off. created r = Date t off \<longrightarrow>
             days_since_creation now1 t = days_since_creation now2 t"
  shows "extract_rows sim now1 rs = extract_rows sim now2 rs"
  using assms
proof (induction rs)
  case Nil
  show ?case by simp
next
  case (Cons r rs)
  then have a: "extract_user_features sim now1 r = extract_user_features sim now2 r"
    and b: "extract_rows sim now1 rs = extract_rows sim now2 rs"
    using extract_user_features_same_days [of r now1 now2 sim] by simp_all
  show ?case unfolding extract_rows.simps a b by (rule refl)
qed

text \<open>
  C9 (as amended). The feature vector is a function of the account record and of the time
  of the run. The time enters only \<open>lifetime_tweets_per_day\<close>, every other field is the
  same at all times; and two runs give identical feature tables whenever, for every
  account with a creation time, the whole days since creation (at least 1) agree.
\<close>

theorem extraction_depends_on_elapsed_days_only:
  "extract_user_features sim now2 r =
     map_sum id (\<lambda>f. f \<lparr> lifetime_tweets_per_day := calc_account_activity now2 r \<rparr>)
       (extract_user_features sim now1 r)
   \<and> ((\<forall>r \<in> set rs. \<forall>t off. created r = Date t off \<longrightarrow>
             days_since_creation now1 t = days_since_creation now2 t)
        \<longrightarrow> extract_all_features sim now1 rs = extract_all_features sim now2 rs)"
proof (intro conjI impI)
  show "extract_user_features sim now2 r =
     map_sum id (\<lambda>f. f \<lparr> lifetime_tweets_per_day := calc_account_activity now2 r \<rparr>)
       (extract_user_features sim now1 r)"
    by (rule extract_user_features_clock)
  assume "\<forall>r \<in> set rs. \<forall>t off. created r = Date t off \<longrightarrow>
             days_since_creation now1 t = days_since_creation now2 t"
  from extract_rows_same_days [OF this]
  show "extract_all_features sim now1 rs = extract_all_features sim now2 rs"
    by (simp add: extract_all_features_def)
qed

theorem extraction_depends_on_elapsed_days_only_witness:
  "created sample_user = Date 1727800000 0
   \<and> days_since_creation 1730000000 1727800000 = 25
   \<and> days_since_creation 1730030000 1727800000 = 25
   \<and> extract_all_features (\<lambda>_. Some (1/3)) 1730000000 [sample_user]
       = extract_all_features (\<lambda>_. Some (1/3)) 1730030000 [sample_user]"
  using extraction_depends_on_elapsed_days_only
    [of "\<lambda>_. Some (1/3)" 1730030000 sample_user 1730000000 "[sample_user]"]
  by (simp add: sample_user_def days_since_creation_def)


section \<open>Properties of the scoring engine\<close>

lemma band3:
  "0 \<le> (if a then (15::rat) else if b then 10 else if c then 5 else 0)
   \<and> (if a then (15::rat) else if b then 10 else if c then 5 else 0) \<le> 15"
  by simp

lemma tier1_bounds: "0 \<le> calculate_tier1_score m r \<and> calculate_tier1_score m r \<le> 135"
proof -
  define a0 :: rat where "a0 = (if feature_row.username r \<in> m then 15 else 0)"
  define a1 :: rat where "a1 = (if follower_following_ratio r < 1/10 then 15
       else if follower_following_ratio r \<le> 3/10 then 10
       else if follower_following_ratio r \<le> 1/2 then 5 else 0)"
  define a2 :: rat where "a2 = (if avg_engagement_per_tweet r < 1/2 then 15
       else if avg_engagement_per_tweet r \<le> 2 then 10
       else if avg_engagement_per_tweet r \<le> 5 then 5 else 0)"
  define a3 :: rat where "a3 = (if favorites_tweets_ratio r < 1/10 then 15
       else if favorites_tweets_ratio r \<le> 3/10 then 10
       else if favorites_tweets_ratio r \<le> 1/2 then 5 else 0)"
  define a4 :: rat where "a4 = (if truthy (created_same_month_as_dataset r) then 15
       else if field_eq_int (account_created_year r) 2024 then 15/2 else 0)"
  define a5 :: rat where "a5 = (if lifetime_tweets_per_day r > 100 then 15
       else if lifetime_tweets_per_day r \<ge> 50 then 10
       else if lifetime_tweets_per_day r \<ge> 25 then 5 else 0)"
  define a6 :: rat where "a6 = (if reply_ratio_pct r \<ge> 80 then 15
       else if reply_ratio_pct r \<ge> 66 then 10
       else if reply_ratio_pct r \<ge> 50 then 5 else 0)"
  define a7 :: rat where "a7 = (if avg_text_similarity_pct r > 80 then 15
       else if avg_text_similarity_pct r \<ge> 60 then 10
       else if avg_text_similarity_pct r \<ge> 40 then 5 else 0)"
  define a8 :: rat where "a8 = (if topic_concentration_pct r = 100 then 15
       else if topic_concentration_pct r \<ge> 80 then 10
       else if topic_concentration_pct r > 70 then 5 else 0)"
  have eq: "calculate_tier1_score m r = a0 + a1 + a2 + a3 + a4 + a5 + a6 + a7 + a8"
    unfolding calculate_tier1_score_def Let_def a0_def a1_def a2_def a3_def a4_def a5_def
      a6_def a7_def a8_def by (rule refl)
  have b0: "0 \<le> a0 \<and> a0 \<le> 15" unfolding a0_def by simp
  have b1: "0 \<le> a1 \<and> a1 \<le> 15" unfolding a1_def by (rule band3)
  have b2: "0 \<le> a2 \<and> a2 \<le> 15" unfolding a2_def by (rule band3)
  have b3: "0 \<le> a3 \<and> a3 \<le> 15" unfolding a3_def by (rule band3)
  have b4: "0 \<le> a4 \<and> a4 \<le> 15" unfolding a4_def by simp
  have b5: "0 \<le> a5 \<and> a5 \<le> 15" unfolding a5_def by (rule band3)
  have b6: "0 \<le> a6 \<and> a6 \<le> 15" unfolding a6_def by (rule band3)
  have b7: "0 \<le> a7 \<and> a7 \<le> 15" unfolding a7_def by (rule band3)
  have b8: "0 \<le> a8 \<and> a8 \<le> 15" unfolding a8_def by (rule band3)
  from b0 b1 b2 b3 b4 b5 b6 b7 b8 show ?thesis unfolding eq by linarith
qed

lemma tier2_bounds: "0 \<le> calculate_tier2_score r \<and> calculate_tier2_score r \<le> 30"
  unfolding calculate_tier2_score_def Let_def by simp

lemma tier3_bounds: "0 \<le> calculate_tier3_score r \<and> calculate_tier3_score r \<le> 19"
  unfolding calculate_tier3_score_def Let_def by simp

lemma calculate_all_scores_row:
  "s \<in> set (calculate_all_scores m fs) \<Longrightarrow> \<exists>r \<in> set fs. s = score_one m r"
  by (auto simp: calculate_all_scores_def)

lemma score_one_zero_row:
  "score_one {} zero_row =
    \<lparr> score_row.username = ''user_a'', user_id = ''1'', tier1_score = 45, tier2_score = 0,
      tier3_score = 0, total_score_before_verification = 45, is_verified = False,
      has_blue = False, is_verified_or_blue = False, score_row.total_score = 45,
      score_row.classification = ''Suspicious'', flagged_for_review = False \<rparr>"
  by (simp add: score_one_def Let_def calculate_tier1_score_def calculate_tier2_score_def
      calculate_tier3_score_def zero_row_def classify_user_def)

text \<open>
  C1. The label of every row of the score table is \<open>classify_user\<close> of the row's
  discounted total and of nothing else; \<open>classify_user\<close> is the step function with
  bands \<open>t \<le> 35\<close>, \<open>35 < t \<le> 60\<close>, \<open>60 < t \<le> 85\<close>, \<open>85 < t\<close>; the boundary
  values 35, 60 and 85 fall in the band below; a larger total never gets a lower band.
\<close>

theorem classify_user_step_function:
  "(s \<in> set (calculate_all_scores m fs) \<longrightarrow> score_row.classification s = classify_user (score_row.total_score s))
   \<and> (classify_user t = ''Likely Human'' \<longleftrightarrow> t \<le> 35)
   \<and> (classify_user t = ''Suspicious'' \<longleftrightarrow> 35 < t \<and> t \<le> 60)
   \<and> (classify_user t = ''Likely Bot'' \<longleftrightarrow> 60 < t \<and> t \<le> 85)
   \<and> (classify_user t = ''Definite Bot'' \<longleftrightarrow> 85 < t)
   \<and> classify_user 35 = ''Likely Human''
   \<and> classify_user 60 = ''Suspicious''
   \<and> classify_user 85 = ''Likely Bot''
   \<and> (t \<le> t' \<longrightarrow> band_rank (classify_user t) \<le> band_rank (classify_user t'))"
proof -
  have "score_row.classification s = classify_user (score_row.total_score s)"
    if "s \<in> set (calculate_all_scores m fs)"
    using calculate_all_scores_row [OF that] by (auto simp: score_one_def Let_def)
  moreover have "band_rank (classify_user t) \<le> band_rank (classify_user t')" if "t \<le> t'"
    using that by (simp add: classify_user_def band_rank_def)
  ultimately show ?thesis
    by (simp add: classify_user_def)
qed

theorem classify_user_step_function_witness:
  "score_one {} zero_row \<in> set (calculate_all_scores {} [zero_row])
   \<and> score_row.classification (score_one {} zero_row) = ''Suspicious''
   \<and> (35::rat) \<le> 3501/100
   \<and> classify_user 35 = ''Likely Human'' \<and> classify_user (3501/100) = ''Suspicious''
   \<and> band_rank (classify_user 35) \<le> band_rank (classify_user (3501/100))"
  using classify_user_step_function
    [of "score_one {} zero_row" "{}" "[zero_row]" 35 "3501/100"]
  by (simp add: calculate_all_scores_def classify_user_def score_one_zero_row)

text \<open>
  C2. The flag is \<open>total \<ge> 86\<close>, the top band is \<open>total > 85\<close>. An unverified account
  created in 2024 outside the observed month (7.5 points) with five full tier-1 indicators
  (75 points) and 20 posts per day (3 points) totals 85.5: it is labelled
  \<open>Definite Bot\<close> and is not flagged for review.
\<close>

theorem flag_differs_from_top_band:
  "score_row.total_score (score_one {} (zero_row \<lparr> account_created_year := Val 2024,
      reply_ratio_pct := 80, avg_text_similarity_pct := 81,
      posting_freq_tweets_per_day := 20 \<rparr>)) = 171/2
   \<and> score_row.classification (score_one {} (zero_row \<lparr> account_created_year := Val 2024,
      reply_ratio_pct := 80, avg_text_similarity_pct := 81,
      posting_freq_tweets_per_day := 20 \<rparr>)) = ''Definite Bot''
   \<and> flagged_for_review (score_one {} (zero_row \<lparr> account_created_year := Val 2024,
      reply_ratio_pct := 80, avg_text_similarity_pct := 81,
      posting_freq_tweets_per_day := 20 \<rparr>)) = False"
  by (simp add: score_one_def Let_def calculate_tier1_score_def calculate_tier2_score_def
      calculate_tier3_score_def zero_row_def classify_user_def)

text \<open>
  C3. In every row of the score table the three tier subtotals add up to the total before
  the verification discount, and that total lies between 0 and 185.
\<close>

theorem tier_sum_is_total_in_range:
  assumes "s \<in> set (calculate_all_scores m fs)"
  shows "tier1_score s + tier2_score s + tier3_score s = total_score_before_verification s
         \<and> 0 \<le> total_score_before_verification s
         \<and> total_score_before_verification s \<le> 185"
proof -
  from calculate_all_scores_row [OF assms] obtain r where s: "s = score_one m r" by blast
  have sum: "total_score_before_verification s
      = calculate_tier1_score m r + calculate_tier2_score r + calculate_tier3_score r"
    and t: "tier1_score s = calculate_tier1_score m r" "tier2_score s = calculate_tier2_score r"
      "tier3_score s = calculate_tier3_score r"
    by (simp_all add: s score_one_def Let_def)
  from tier1_bounds [of m r] tier2_bounds [of r] tier3_bounds [of r]
  show ?thesis unfolding sum t by linarith
qed

theorem tier_sum_is_total_in_range_witness:
  "score_one {} zero_row \<in> set (calculate_all_scores {} [zero_row])
   \<and> total_score_before_verification (score_one {} zero_row) = 45
   \<and> tier1_score (score_one {} zero_row) + tier2_score (score_one {} zero_row)
       + tier3_score (score_one {} zero_row) = 45"
  using tier_sum_is_total_in_range [of "score_one {} zero_row" "{}" "[zero_row]"]
  by (simp add: calculate_all_scores_def score_one_zero_row)

text \<open>
  C4. In every row of the score table, if the account is verified or has paid
  verification the final total is exactly three quarters of the total before the discount;
  otherwise the final total is the total before the discount.
\<close>

theorem verification_discount:
  assumes "s \<in> set (calculate_all_scores m fs)"
  shows "(is_verified s \<or> has_blue s \<longrightarrow>
            score_row.total_score s = total_score_before_verification s * (3/4))
         \<and> (\<not> (is_verified s \<or> has_blue s) \<longrightarrow>
            score_row.total_score s = total_score_before_verification s)"
proof -
  from calculate_all_scores_row [OF assms] obtain r where s: "s = score_one m r" by blast
  show ?thesis by (simp add: s score_one_def Let_def)
qed

theorem verification_discount_witness:
  "score_one {} (zero_row \<lparr> feature_row.has_blue := True \<rparr>)
      \<in> set (calculate_all_scores {} [zero_row \<lparr> feature_row.has_blue := True \<rparr>, zero_row])
   \<and> has_blue (score_one {} (zero_row \<lparr> feature_row.has_blue := True \<rparr>))
   \<and> total_score_before_verification (score_one {} (zero_row \<lparr> feature_row.has_blue := True \<rparr>)) = 45
   \<and> score_row.total_score (score_one {} (zero_row \<lparr> feature_row.has_blue := True \<rparr>)) = 135/4"
  using verification_discount [of "score_one {} (zero_row \<lparr> feature_row.has_blue := True \<rparr>)" "{}"
      "[zero_row \<lparr> feature_row.has_blue := True \<rparr>, zero_row]"]
  by (simp add: calculate_all_scores_def score_one_def Let_def calculate_tier1_score_def
      calculate_tier2_score_def calculate_tier3_score_def zero_row_def)


section \<open>Properties of the coordination detector\<close>

subsection \<open>Text normalization\<close>

lemma char_facts:
  "\<not> is_space CHR ''h''" "\<not> is_space CHR ''t''" "\<not> is_space CHR ''p''" "is_space CHR '' ''"
  "lower_char CHR '' '' = CHR '' ''"
  by (simp_all add: is_space_def lower_char_def)

lemma lower_char_idem: "lower_char (lower_char c) = lower_char c"
proof -
  have "(of_char c :: nat) < 256" by simp
  then show ?thesis
    by (auto simp: lower_char_def Let_def)
qed

lemma url_at_iff:
  "url_at xs \<longleftrightarrow>
     (\<exists>e rest. xs = CHR ''h'' # CHR ''t'' # CHR ''t'' # CHR ''p'' # e # rest \<and> \<not> is_space e)"
  by (cases xs rule: url_at.cases) auto

lemma url_at_space: "is_space c \<Longrightarrow> \<not> url_at (c # cs)"
  using char_facts by (auto simp: url_at_iff)

lemma url_at_append: "url_at xs \<Longrightarrow> url_at (xs @ ys)"
  by (auto simp: url_at_iff)

lemma contains_url_appendI1: "contains_url xs \<Longrightarrow> contains_url (xs @ ys)"
  by (induction xs) (auto dest: url_at_append [where ys = ys])

lemma contains_url_appendI2: "contains_url ys \<Longrightarrow> contains_url (xs @ ys)"
  by (induction xs) auto

lemma contains_url_dropWhile: "contains_url (dropWhile P xs) \<Longrightarrow> contains_url xs"
  using contains_url_appendI2 [of "dropWhile P xs" "takeWhile P xs"] by simp

lemma rev_dropWhile_rev_prefix:
  "rev (dropWhile P (rev w)) @ rev (takeWhile P (rev w)) = w"
proof -
  have "rev (takeWhile P (rev w) @ dropWhile P (rev w)) = w" by simp
  then show ?thesis by (simp only: rev_append)
qed

lemma strip_decomp: "\<exists>a b. z = a @ strip z @ b"
proof -
  let ?w = "dropWhile is_space z"
  have "z = takeWhile is_space z @ ?w" by simp
  moreover have "?w = strip z @ rev (takeWhile is_space (rev ?w))"
    unfolding strip_def by (rule rev_dropWhile_rev_prefix [symmetric])
  ultimately have "z = takeWhile is_space z @ strip z @ rev (takeWhile is_space (rev ?w))"
    by simp
  then show ?thesis by blast
qed

lemma contains_url_strip: "contains_url (strip z) \<Longrightarrow> contains_url z"
proof -
  assume c: "contains_url (strip z)"
  from strip_decomp [of z] obtain a b where z: "z = a @ strip z @ b" by blast
  from c have "contains_url (a @ strip z @ b)"
    by (intro contains_url_appendI2 contains_url_appendI1)
  with z show ?thesis by simp
qed


lemma dropWhile_nonspace_head:
  "dropWhile (\<lambda>x. \<not> is_space x) xs = [] \<or> is_space (hd (dropWhile (\<lambda>x. \<not> is_space x) xs))"
  using hd_dropWhile [of "\<lambda>x. \<not> is_space x" xs] by auto

lemma remove_urls_space_head:
  "xs = [] \<or> is_space (hd xs) \<Longrightarrow> remove_urls xs = [] \<or> is_space (hd (remove_urls xs))"
  by (cases xs) (auto simp: url_at_space)

lemma remove_urls_head:
  assumes "remove_urls cs = a # r" and "\<not> is_space a"
  shows "\<exists>cs'. cs = a # cs' \<and> r = remove_urls cs'"
proof (cases cs)
  case Nil
  with assms show ?thesis by simp
next
  case (Cons c cs')
  show ?thesis
  proof (cases "url_at (c # cs')")
    case True
    let ?D = "dropWhile (\<lambda>x. \<not> is_space x) (drop 4 (c # cs'))"
    from True Cons have "remove_urls cs = remove_urls ?D" by simp
    with assms(1) have D: "remove_urls ?D = a # r" by simp
    have "remove_urls ?D = [] \<or> is_space (hd (remove_urls ?D))"
      by (rule remove_urls_space_head) (rule dropWhile_nonspace_head)
    with assms(2) show ?thesis unfolding D by simp
  next
    case False
    with Cons assms show ?thesis by simp
  qed
qed

lemma collapse_ws_head:
  assumes "collapse_ws cs = a # r" and "\<not> is_space a"
  shows "\<exists>cs'. cs = a # cs' \<and> r = collapse_ws cs'"
  using assms char_facts(4) by (cases cs) (auto split: if_splits)

lemma url_at_transfer:
  assumes H: "\<And>cs a r. f cs = a # r \<Longrightarrow> \<not> is_space a \<Longrightarrow> \<exists>cs'. cs = a # cs' \<and> r = f cs'"
    and u: "url_at (c # f cs)"
  shows "url_at (c # cs)"
proof -
  from u obtain e rest where c: "c = CHR ''h''"
    and 1: "f cs = CHR ''t'' # CHR ''t'' # CHR ''p'' # e # rest" and e: "\<not> is_space e"
    by (auto simp: url_at_iff)
  from H [OF 1 char_facts(2)] obtain cs1 where
    cs: "cs = CHR ''t'' # cs1" and 2: "f cs1 = CHR ''t'' # CHR ''p'' # e # rest" by auto
  from H [OF 2 char_facts(2)] obtain cs2 where
    cs1: "cs1 = CHR ''t'' # cs2" and 3: "f cs2 = CHR ''p'' # e # rest" by auto
  from H [OF 3 char_facts(3)] obtain cs3 where
    cs2: "cs2 = CHR ''p'' # cs3" and 4: "f cs3 = e # rest" by auto
  from H [OF 4 e] obtain cs4 where cs3: "cs3 = e # cs4" by auto
  show ?thesis unfolding c cs cs1 cs2 cs3 using e by simp
qed

lemma remove_urls_no_url: "\<not> contains_url (remove_urls z)"
proof (induction z rule: remove_urls.induct)
  case 1
  show ?case by simp
next
  case (2 c cs)
  show ?case
  proof (cases "url_at (c # cs)")
    case True
    with 2 show ?thesis by simp
  next
    case False
    then have "\<not> url_at (c # remove_urls cs)"
      using url_at_transfer [of remove_urls c cs] remove_urls_head by blast
    with False 2 show ?thesis by simp
  qed
qed

lemma collapse_ws_no_url: "\<not> contains_url z \<Longrightarrow> \<not> contains_url (collapse_ws z)"
proof (induction z rule: collapse_ws.induct)
  case 1
  show ?case by simp
next
  case (2 c cs)
  show ?case
  proof (cases "is_space c")
    case True
    from "2.prems" have "\<not> contains_url (dropWhile is_space cs)"
      using contains_url_dropWhile [of is_space cs] by auto
    with "2.IH"(1) [OF True] True show ?thesis
      using url_at_space [OF char_facts(4)] by simp
  next
    case False
    from "2.prems" have "\<not> url_at (c # cs)" and "\<not> contains_url cs" by simp_all
    then have "\<not> url_at (c # collapse_ws cs)"
      using url_at_transfer [of collapse_ws c cs] collapse_ws_head by blast
    with False "2.IH"(2) [OF False \<open>\<not> contains_url cs\<close>] show ?thesis by simp
  qed
qed

lemma remove_urls_id: "\<not> contains_url y \<Longrightarrow> remove_urls y = y"
  by (induction y) simp_all


lemma collapse_ws_nonspace_head:
  "w = [] \<or> \<not> is_space (hd w) \<Longrightarrow> collapse_ws w = [] \<or> \<not> is_space (hd (collapse_ws w))"
  by (cases w) auto

lemma dropWhile_space_head:
  "dropWhile is_space xs = [] \<or> \<not> is_space (hd (dropWhile is_space xs))"
  using hd_dropWhile [of is_space xs] by auto

lemma norm_ws_Cons_nonspace:
  "norm_ws r \<Longrightarrow> (is_space c \<longrightarrow> c = CHR '' '' \<and> (r = [] \<or> \<not> is_space (hd r))) \<Longrightarrow> norm_ws (c # r)"
  by (cases r) auto

lemma norm_ws_collapse: "norm_ws (collapse_ws z)"
proof (induction z rule: collapse_ws.induct)
  case 1
  show ?case by simp
next
  case (2 c cs)
  show ?case
  proof (cases "is_space c")
    case True
    have "collapse_ws (dropWhile is_space cs) = []
        \<or> \<not> is_space (hd (collapse_ws (dropWhile is_space cs)))"
      by (rule collapse_ws_nonspace_head) (rule dropWhile_space_head)
    with "2.IH"(1) [OF True] True show ?thesis
      by (simp add: norm_ws_Cons_nonspace)
  next
    case False
    with "2.IH"(2) [OF False] show ?thesis by (simp add: norm_ws_Cons_nonspace)
  qed
qed

lemma collapse_ws_id: "norm_ws z \<Longrightarrow> collapse_ws z = z"
  by (induction z rule: norm_ws.induct) (auto simp: char_facts)

lemma norm_ws_tl: "norm_ws (c # cs) \<Longrightarrow> norm_ws cs"
  by (cases cs) simp_all

lemma norm_ws_dropWhile: "norm_ws z \<Longrightarrow> norm_ws (dropWhile P z)"
  by (induction z) (auto dest: norm_ws_tl)

lemma norm_ws_prefix: "norm_ws (xs @ ys) \<Longrightarrow> norm_ws xs"
proof (induction xs rule: norm_ws.induct)
  case 1
  show ?case by simp
next
  case (2 c)
  then show ?case by (cases ys) auto
next
  case (3 c d cs)
  then show ?case by auto
qed

lemma norm_ws_strip: "norm_ws z \<Longrightarrow> norm_ws (strip z)"
proof -
  assume "norm_ws z"
  then have "norm_ws (dropWhile is_space z)" by (rule norm_ws_dropWhile)
  then have "norm_ws (strip z @ rev (takeWhile is_space (rev (dropWhile is_space z))))"
    unfolding strip_def by (simp only: rev_dropWhile_rev_prefix)
  then show ?thesis by (rule norm_ws_prefix)
qed

lemma strip_ends:
  "strip z = [] \<or> (\<not> is_space (hd (strip z)) \<and> \<not> is_space (last (strip z)))"
proof (cases "strip z = []")
  case True
  then show ?thesis by simp
next
  case False
  let ?w = "dropWhile is_space z"
  let ?v = "dropWhile is_space (rev ?w)"
  have s: "strip z = rev ?v" by (simp add: strip_def)
  with False have v: "?v \<noteq> []" by simp
  then have hv: "\<not> is_space (hd ?v)" by (rule hd_dropWhile)
  have "rev ?w = takeWhile is_space (rev ?w) @ ?v" by simp
  with v have "last (rev ?w) = last ?v" by (metis last_appendR)
  moreover from v have "rev ?w \<noteq> []" by (metis dropWhile.simps(1))
  then have w: "?w \<noteq> []" by simp
  ultimately have "last ?v = hd ?w" by (simp add: last_rev)
  moreover from w have "\<not> is_space (hd ?w)" by (rule hd_dropWhile)
  ultimately have "\<not> is_space (last ?v)" by simp
  with hv v show ?thesis unfolding s by (simp add: hd_rev last_rev)
qed

lemma strip_id:
  assumes "s = [] \<or> (\<not> is_space (hd s) \<and> \<not> is_space (last s))"
  shows "strip s = s"
proof (cases "s = []")
  case True
  then show ?thesis by (simp add: strip_def)
next
  case False
  with assms have h: "\<not> is_space (hd s)" and l: "\<not> is_space (last s)" by simp_all
  from False h have 1: "dropWhile is_space s = s" by (cases s) simp_all
  from False l have "\<not> is_space (hd (rev s))" by (simp add: hd_rev)
  with False have 2: "dropWhile is_space (rev s) = rev s" by (cases "rev s") simp_all
  show ?thesis by (simp add: strip_def 1 2)
qed

lemma set_remove_urls: "set (remove_urls z) \<subseteq> set z"
proof (induction z rule: remove_urls.induct)
  case 1
  show ?case by simp
next
  case (2 c cs)
  show ?case
  proof (cases "url_at (c # cs)")
    case True
    have "set (dropWhile (\<lambda>x. \<not> is_space x) (drop 4 (c # cs))) \<subseteq> set (c # cs)"
      by (meson set_dropWhileD in_set_dropD subsetI)
    with "2.IH"(1) [OF True] True show ?thesis by auto
  next
    case False
    with "2.IH"(2) [OF False] show ?thesis by auto
  qed
qed

lemma set_collapse_ws: "set (collapse_ws z) \<subseteq> insert CHR '' '' (set z)"
proof (induction z rule: collapse_ws.induct)
  case 1
  show ?case by simp
next
  case (2 c cs)
  show ?case
  proof (cases "is_space c")
    case True
    have "set (dropWhile is_space cs) \<subseteq> set cs" by (meson set_dropWhileD subsetI)
    with "2.IH"(1) [OF True] True show ?thesis by auto
  next
    case False
    with "2.IH"(2) [OF False] show ?thesis by auto
  qed
qed

lemma set_strip: "set (strip z) \<subseteq> set z"
proof -
  from strip_decomp [of z] obtain a b where "z = a @ strip z @ b" by blast
  then have "set z = set a \<union> set (strip z) \<union> set b" by (metis set_append Un_assoc)
  then show ?thesis by blast
qed

lemma lowered_pipeline:
  "\<forall>c \<in> set (strip (collapse_ws (remove_urls (lower s)))). lower_char c = c"
proof
  fix c assume "c \<in> set (strip (collapse_ws (remove_urls (lower s))))"
  with set_strip have "c \<in> set (collapse_ws (remove_urls (lower s)))" by blast
  with set_collapse_ws have "c = CHR '' '' \<or> c \<in> set (remove_urls (lower s))" by blast
  with set_remove_urls have "c = CHR '' '' \<or> c \<in> set (lower s)" by blast
  then show "lower_char c = c"
    by (auto simp: lower_def char_facts lower_char_idem)
qed

lemma pipeline_fixpoint:
  fixes s :: string
  defines "y \<equiv> strip (collapse_ws (remove_urls (lower s)))"
  shows "strip (collapse_ws (remove_urls (lower y))) = y" and "\<not> contains_url y"
proof -
  have "map lower_char y = y"
    by (rule map_idI) (simp add: y_def lowered_pipeline)
  then have 1: "lower y = y" by (simp only: lower_def)
  show nu: "\<not> contains_url y"
    unfolding y_def
    using remove_urls_no_url [of "lower s"] collapse_ws_no_url contains_url_strip by blast
  then have 2: "remove_urls y = y" by (rule remove_urls_id)
  have "norm_ws y" unfolding y_def by (intro norm_ws_strip norm_ws_collapse)
  then have 3: "collapse_ws y = y" by (rule collapse_ws_id)
  have 4: "strip y = y" unfolding y_def by (rule strip_id) (rule strip_ends)
  show "strip (collapse_ws (remove_urls (lower y))) = y" by (simp only: 1 2 3 4)
qed

lemma contains_url_mid:
  "\<not> is_space e \<Longrightarrow> contains_url (p @ CHR ''h'' # CHR ''t'' # CHR ''t'' # CHR ''p'' # e # s)"
  by (rule contains_url_appendI2) simp

text \<open>
  C6, as stated, fails: the pattern asks for one character after \<open>http\<close>, so the word
  \<open>http\<close> on its own is not removed and the normalized text contains it.
\<close>

theorem bare_http_is_kept:
  "normalize_text (Str ''see http'') = ''see '' @ ''http''
   \<and> normalize_text (Str ''HTTP and more'') = ''http'' @ '' and more''"
  by code_simp

text \<open>
  C6 (as amended). Normalizing a normalized text changes nothing, and the normalized text
  has no match of the URL pattern at any position: wherever it reads \<open>http\<close>,
  whitespace follows or the text ends, and it never reads \<open>https\<close>.
\<close>

theorem normalize_text_idempotent_no_urls:
  "normalize_text (Str (normalize_text t)) = normalize_text t
   \<and> \<not> contains_url (normalize_text t)
   \<and> (normalize_text t = p @ ''http'' @ e # s \<longrightarrow> is_space e)
   \<and> normalize_text t \<noteq> p @ ''https'' @ s"
proof -
  have nu: "\<not> contains_url (normalize_text t)"
    using pipeline_fixpoint(2) [of "py_str t"] by (simp add: normalize_text_def)
  have idem: "normalize_text (Str (normalize_text t)) = normalize_text t"
  proof (cases "isna t \<or> py_eq t (Str [])")
    case True
    then show ?thesis by (simp add: normalize_text_def)
  next
    case False
    then have y: "normalize_text t = strip (collapse_ws (remove_urls (lower (py_str t))))"
      by (simp add: normalize_text_def)
    show ?thesis
    proof (cases "normalize_text t = []")
      case True
      then show ?thesis by (simp add: normalize_text_def)
    next
      case False
      then have "normalize_text (Str (normalize_text t))
          = strip (collapse_ws (remove_urls (lower (normalize_text t))))"
        by (simp add: normalize_text_def [of "Str (normalize_text t)"])
      also have "\<dots> = normalize_text t"
        unfolding y by (rule pipeline_fixpoint(1))
      finally show ?thesis .
    qed
  qed
  have 3: "is_space e" if "normalize_text t = p @ ''http'' @ e # s"
  proof (rule ccontr)
    assume "\<not> is_space e"
    from contains_url_mid [OF this, of p s] that nu show False by simp
  qed
  have 4: "normalize_text t \<noteq> p @ ''https'' @ s"
  proof
    assume a: "normalize_text t = p @ ''https'' @ s"
    have "\<not> is_space CHR ''s''" by (simp add: is_space_def)
    from contains_url_mid [OF this, of p s] a nu show False by simp
  qed
  from idem nu 3 4 show ?thesis by blast
qed

lemma normalize_example:
  "normalize_text (Str ''Go  http now HTTPS://t.co/x '') = ''go http now''"
  "normalize_text (Str ''go http now'') = ''go http now''"
  by code_simp+

theorem normalize_text_idempotent_no_urls_witness:
  "normalize_text (Str ''Go  http now HTTPS://t.co/x '') = ''go '' @ ''http'' @ CHR '' '' # ''now''
   \<and> is_space CHR '' ''
   \<and> normalize_text (Str (normalize_text (Str ''Go  http now HTTPS://t.co/x '')))
       = normalize_text (Str ''Go  http now HTTPS://t.co/x '')"
  using normalize_text_idempotent_no_urls
    [of "Str ''Go  http now HTTPS://t.co/x ''" "''go ''" "CHR '' ''" "''now''"]
  by (simp add: normalize_example)


subsection \<open>Grouping\<close>






























subsection \<open>Promotion of groups to farms\<close>

text \<open>
  The score table has the usernames of the account table, in its order: when the loader
  supplies one record per username, the score table holds one row per account.
\<close>

lemma extract_user_features_username:
  "extract_user_features sim now r = Inr f \<Longrightarrow> feature_row.username f = user_row.username r"
  by (auto simp: extract_user_features_def split: sum.splits prod.splits)

lemma extract_rows_usernames:
  "extract_rows sim now rs = Inr fs \<Longrightarrow> map feature_row.username fs = map user_row.username rs"
proof (induction rs arbitrary: fs)
  case Nil
  then show ?case by simp
next
  case (Cons r rs)
  then show ?case
    by (auto split: sum.splits dest: extract_user_features_username)
qed

lemma data_frame_usernames: "map feature_row.username (data_frame ds) = map feature_row.username ds"
  by (simp add: data_frame_def Let_def comp_def)

lemma calculate_all_scores_usernames:
  "map score_row.username (calculate_all_scores m fs) = map feature_row.username fs"
  by (simp add: calculate_all_scores_def score_one_def Let_def comp_def)

lemma initial_scores_usernames:
  assumes "extract_all_features sim now user_data = Inr features"
  shows "map score_row.username (calculate_all_scores m features) = map user_row.username user_data"
proof -
  from assms obtain ds where ds: "extract_rows sim now user_data = Inr ds"
    and f: "features = data_frame ds"
    by (auto simp: extract_all_features_def split: sum.splits)
  show ?thesis
    unfolding calculate_all_scores_usernames f data_frame_usernames
    by (rule extract_rows_usernames [OF ds])
qed







subsection \<open>Original posts and unscored members\<close>

lemma is_original_cases:
  "is_original v \<longleftrightarrow> v \<in> {Null, Bool False, Str [], Str ''False'', Str ''nan'', Str ''[]''}"
  by (cases v) (auto simp: is_original_def)

text \<open>
  C7. \<open>filter_original_tweets\<close> keeps a post exactly when its retweet indicator is
  missing, the boolean false, the empty string, or one of the strings \<open>False\<close>,
  \<open>nan\<close>, \<open>[]\<close>; the pipeline normalizes and groups only the posts kept.
\<close>

theorem original_posts_retained:
  "(is_original v \<longleftrightarrow> v \<in> {Null, Bool False, Str [], Str ''False'', Str ''nan'', Str ''[]''})
   \<and> filter_original_tweets (Some ts) =
       Inr (filter (\<lambda>t. retweetedTweet t \<in>
              {Null, Bool False, Str [], Str ''False'', Str ''nan'', Str ''[]''}) ts)
   \<and> detect ts sc =
       identify_troll_farms
         (Some (filter (\<lambda>t. retweetedTweet t \<in>
              {Null, Bool False, Str [], Str ''False'', Str ''nan'', Str ''[]''}) ts))
         (Some sc) 10 50"
  by (simp only: is_original_cases filter_original_tweets_def detect_def option.case sum.case
      simp_thms)




lemma bot_count_le_length: "bot_count rows \<le> length rows"
  by (simp add: bot_count_def)







end
